theory Spec2Isabelle
  imports Complex_Main "HOL-Library.Word" "HOL-Library.Sublist" "HOL-Library.Multiset"
begin

unbundle bit_operations_syntax

section \<open>Errors\<close>

text \<open>
  The exceptions that \<^verbatim>\<open>imcconv.py\<close> raises, or that the library calls it makes raise,
  as values. The messages of the three \<^verbatim>\<open>raise\<close> statements of the source are kept in
  full; the messages of library exceptions are kept as the library words them, without
  the numbers the library formats into them.
\<close>

datatype error =
    ValueError string
  | NotImplementedError string
  | KeyError string
  | TypeError string
  | IndexError string
  | StructError string
  | UnicodeDecodeError string
  | ParseError string

section \<open>float32 values\<close>

text \<open>
  An element of the decoded array is a float32, kept as its 32 bits: bit 31 is the sign,
  bits 30..23 the biased exponent, bits 22..0 the fraction.
\<close>

type_synonym f32 = "32 word"

definition f32_sign :: "f32 \<Rightarrow> bool" where
  "f32_sign w = (2 ^ 31 \<le> unat w)"

definition f32_exp :: "f32 \<Rightarrow> nat" where
  "f32_exp w = (unat w div 2 ^ 23) mod 256"

definition f32_man :: "f32 \<Rightarrow> nat" where
  "f32_man w = unat w mod 2 ^ 23"

definition f32_isnan :: "f32 \<Rightarrow> bool" where
  "f32_isnan w = (f32_exp w = 255 \<and> f32_man w \<noteq> 0)"

definition f32_isinf :: "f32 \<Rightarrow> bool" where
  "f32_isinf w = (f32_exp w = 255 \<and> f32_man w = 0)"

definition f32_finite :: "f32 \<Rightarrow> bool" where
  "f32_finite w = (f32_exp w \<noteq> 255)"

text \<open>The magnitude of a finite float32, and its value, as exact rationals.\<close>

definition f32_mag :: "f32 \<Rightarrow> rat" where
  "f32_mag w =
     (if f32_exp w = 0 then of_nat (f32_man w) / 2 ^ 149
      else if 150 \<le> f32_exp w then of_nat (2 ^ 23 + f32_man w) * 2 ^ (f32_exp w - 150)
      else of_nat (2 ^ 23 + f32_man w) / 2 ^ (150 - f32_exp w))"

definition f32_val :: "f32 \<Rightarrow> rat" where
  "f32_val w = (if f32_sign w then - f32_mag w else f32_mag w)"

text \<open>
  The order of IEEE-754 on the values that are not NaN: the infinities lie beyond every
  finite value, whose magnitude is below \<open>2 ^ 128\<close>.
\<close>

definition f32_ord :: "f32 \<Rightarrow> rat" where
  "f32_ord w =
     (if f32_isinf w then (if f32_sign w then - (2 ^ 128) else 2 ^ 128) else f32_val w)"

text \<open>
  \<^verbatim>\<open>ndarray.max\<close> folds \<^verbatim>\<open>maximum\<close> over the elements: a NaN, once met, is
  the result; an empty array raises.
\<close>

definition np_maximum :: "f32 \<Rightarrow> f32 \<Rightarrow> f32" where
  "np_maximum a b =
     (if f32_isnan a then a
      else if f32_isnan b then b
      else if f32_ord b \<le> f32_ord a then a else b)"

definition np_max :: "f32 list \<Rightarrow> error + f32" where
  "np_max xs =
     (case xs of
        [] \<Rightarrow> Inl (ValueError
                ''zero-size array to reduction operation maximum which has no identity'')
      | x # rest \<Rightarrow> Inr (foldl np_maximum x rest))"

text \<open>
  \<^verbatim>\<open>astype(int)\<close> is the C cast of a float to a 64-bit integer: it truncates towards
  zero, so a magnitude below one (exponent field zero included) gives zero. For a NaN, an
  infinity or a value outside the 64-bit range the cast gives the least 64-bit integer
  (what the x86-64 conversion instruction returns).
\<close>

definition f32_trunc :: "f32 \<Rightarrow> nat" where
  "f32_trunc w =
     (if f32_exp w = 0 then 0
      else if 150 \<le> f32_exp w then (2 ^ 23 + f32_man w) * 2 ^ (f32_exp w - 150)
      else (2 ^ 23 + f32_man w) div 2 ^ (150 - f32_exp w))"

definition astype_int :: "f32 \<Rightarrow> int" where
  "astype_int w =
     (if \<not> f32_finite w \<or> 2 ^ 63 \<le> f32_trunc w then - (2 ^ 63)
      else if f32_sign w then - int (f32_trunc w) else int (f32_trunc w))"

text \<open>Arithmetic on numpy's 64-bit integers wraps around.\<close>

definition wrap64 :: "int \<Rightarrow> int" where
  "wrap64 i = (i + 2 ^ 63) mod 2 ^ 64 - 2 ^ 63"

section \<open>Arrays\<close>

text \<open>
  The long-form array \<^verbatim>\<open>arr\<close> is a list of rows, each row the list of its columns
  \<open>x, y, z, c1, ..., cN\<close>. The image is an array of three axes: its shape and its
  elements in C order, so that the element at \<open>(row, col, ch)\<close> of an image of shape
  \<open>(ysz, xsz, csz)\<close> is at position \<open>(row * xsz + col) * csz + ch\<close>.

  \<^verbatim>\<open>fill_missing\<close> is a Python float, kept as its 64 bits. Stacking the float32 rows
  on rows of the fill value gives a float64 array: \<open>Widened w\<close> is the float64 that the
  float32 \<open>w\<close> converts to, \<open>Float64 d\<close> is the float64 with the bits \<open>d\<close>.
\<close>

datatype npval = Float32 f32 | Widened f32 | Float64 "64 word"

record ndarray3 =
  shape :: "nat \<times> nat \<times> nat"
  data :: "npval list"


text \<open>
  \<^verbatim>\<open>ndarray.reshape\<close> to three axes: a negative length stands for the one axis whose
  length is computed from the others; otherwise the lengths must multiply to the number
  of elements.
\<close>

definition reshape3 :: "npval list \<Rightarrow> int \<times> int \<times> int \<Rightarrow> error + ndarray3" where
  "reshape3 xs dims =
     (case dims of (a, b, c) \<Rightarrow>
        let unknown = length (filter (\<lambda>d. d < 0) [a, b, c]);
            known = prod_list (filter (\<lambda>d. 0 \<le> d) [a, b, c]);
            n = int (length xs);
            ax = (\<lambda>d. if d < 0 then nat (n div known) else nat d)
        in if 1 < unknown then Inl (ValueError ''can only specify one unknown dimension'')
           else if unknown = 1 \<and> (known = 0 \<or> n mod known \<noteq> 0)
             then Inl (ValueError ''cannot reshape array'')
           else if unknown = 0 \<and> n \<noteq> known
             then Inl (ValueError ''cannot reshape array'')
           else Inr \<lparr>shape = (ax a, ax b, ax c), data = xs\<rparr>)"

section \<open>The grid reshaper\<close>

text \<open>
  \<^verbatim>\<open>_xyzc_to_arr\<close>, statement by statement:
  \<^verbatim>\<open>
    xsz, ysz = arr[:,:2].max(axis=0).astype(int) + 1
    csz = arr.shape[1] - 3
    if xsz * ysz != arr.shape[0] and fill_missing is not None:
        arr = np.vstack([arr, np.ones((xsz*ysz - arr.shape[0], 3+csz))*fill_missing])
    return arr[:,3:].reshape((ysz, xsz, csz))
  \<close>
\<close>

definition grid_dims :: "f32 list list \<Rightarrow> error + int \<times> int" where
  "grid_dims arr =
     (if arr \<noteq> [] \<and> length (hd arr) < 2
      then Inl (ValueError ''not enough values to unpack (expected 2)'')
      else
        (case np_max (map (\<lambda>r. r ! 0) arr) of
           Inl e \<Rightarrow> Inl e
         | Inr mx \<Rightarrow>
             (case np_max (map (\<lambda>r. r ! 1) arr) of
                Inl e \<Rightarrow> Inl e
              | Inr my \<Rightarrow> Inr (wrap64 (astype_int mx + 1), wrap64 (astype_int my + 1)))))"

definition np_ones_times :: "int \<Rightarrow> int \<Rightarrow> 64 word \<Rightarrow> error + npval list list" where
  "np_ones_times k ncols v =
     (if k < 0 \<or> ncols < 0 then Inl (ValueError ''negative dimensions are not allowed'')
      else Inr (replicate (nat k) (replicate (nat ncols) (Float64 v))))"

definition xyzc_to_arr :: "f32 list list \<Rightarrow> 64 word option \<Rightarrow> error + ndarray3" where
  "xyzc_to_arr arr fill_missing =
     (case grid_dims arr of
        Inl e \<Rightarrow> Inl e
      | Inr (xsz, ysz) \<Rightarrow>
          let csz = int (length (hd arr)) - 3 in
          (case (if wrap64 (xsz * ysz) \<noteq> int (length arr) \<and> fill_missing \<noteq> None
                 then (case np_ones_times (wrap64 (wrap64 (xsz * ysz) - int (length arr)))
                              (3 + csz) (the fill_missing) of
                         Inl e \<Rightarrow> Inl e
                       | Inr pad \<Rightarrow> Inr (map (map Widened) arr @ pad))
                 else Inr (map (map Float32) arr)) of
             Inl e \<Rightarrow> Inl e
           | Inr arr' \<Rightarrow> reshape3 (concat (map (drop 3) arr')) (ysz, xsz, csz)))"

text \<open>
  \<^verbatim>\<open>_is_missing_values\<close>:
  \<^verbatim>\<open>
    nexpected = (arr[:,0].max() + 1) * (arr[:,1].max() + 1)
    return (arr.shape[0] != nexpected or np.isnan(arr).sum() > 0)
  \<close>
  The sum and the product are floating-point operations. They are written here on the
  exact values: that is what numpy computes whenever the exact result is a float32, as it
  is for whole-number coordinates and a product of at most \<open>2 ^ 24\<close>. A NaN or an
  infinity among the two maxima makes \<^verbatim>\<open>nexpected\<close> a NaN or an infinity, which
  differs from every row count.
\<close>

definition count_differs :: "nat \<Rightarrow> f32 \<Rightarrow> f32 \<Rightarrow> bool" where
  "count_differs n mx my =
     (if f32_finite mx \<and> f32_finite my
      then of_nat n \<noteq> (f32_val mx + 1) * (f32_val my + 1)
      else True)"

definition is_missing_values :: "f32 list list \<Rightarrow> error + bool" where
  "is_missing_values arr =
     (if arr \<noteq> [] \<and> length (hd arr) < 2
      then Inl (IndexError ''index is out of bounds for axis 1'')
      else
        (case np_max (map (\<lambda>r. r ! 0) arr) of
           Inl e \<Rightarrow> Inl e
         | Inr mx \<Rightarrow>
             (case np_max (map (\<lambda>r. r ! 1) arr) of
                Inl e \<Rightarrow> Inl e
              | Inr my \<Rightarrow>
                  Inr (count_differs (length arr) mx my
                       \<or> 0 < length (filter f32_isnan (concat arr))))))"

section \<open>The raw record decoder\<close>

type_synonym byte = "8 word"

text \<open>
  \<^verbatim>\<open>struct.unpack("f", b)[0]\<close> reads four bytes in the byte order of the machine,
  taken to be little-endian, as a C float and returns it as a Python float;
  \<^verbatim>\<open>np.array(..., dtype=np.float32)\<close> converts it back. The two conversions keep
  every bit of a value that is not a NaN, and make a signalling NaN quiet (they set bit 22
  of the fraction). A slice that is not four bytes long raises \<^verbatim>\<open>struct.error\<close>.
\<close>

definition le32 :: "byte list \<Rightarrow> f32" where
  "le32 b = of_nat (unat (b ! 0) + 256 * unat (b ! 1) + 65536 * unat (b ! 2)
                    + 16777216 * unat (b ! 3))"

definition f32_quiet :: "f32 \<Rightarrow> f32" where
  "f32_quiet w = (if f32_isnan w then w OR 0x00400000 else w)"

definition unpack_f :: "byte list \<Rightarrow> error + f32" where
  "unpack_f b =
     (if length b \<noteq> 4 then Inl (StructError ''unpack requires a buffer of 4 bytes'')
      else Inr (f32_quiet (le32 b)))"

text \<open>A list comprehension whose elements may raise: the first exception ends it.\<close>

fun collect :: "(error + 'a) list \<Rightarrow> error + 'a list" where
  "collect [] = Inr []"
| "collect (Inl e # rs) = Inl e"
| "collect (Inr v # rs) = (case collect rs of Inl e \<Rightarrow> Inl e | Inr vs \<Rightarrow> Inr (v # vs))"

text \<open>\<^verbatim>\<open>[xs[i:i+k] for i in range(0, len(xs), k)]\<close>: the last slice may be short.\<close>

definition slices :: "nat \<Rightarrow> 'a list \<Rightarrow> 'a list list" where
  "slices k xs = map (\<lambda>i. take k (drop (i * k) xs)) [0 ..< (length xs + k - 1) div k]"

definition decode_floats :: "byte list \<Rightarrow> error + f32 list" where
  "decode_floats raw = collect (map unpack_f (slices 4 raw))"

text \<open>
  \<^verbatim>\<open>.reshape((-1, width))\<close> with a positive width: the number of rows is computed,
  and the width must divide the number of elements.
\<close>

definition reshape_rows :: "f32 list \<Rightarrow> nat \<Rightarrow> error + f32 list list" where
  "reshape_rows fs width =
     (if width = 0 \<or> length fs mod width \<noteq> 0 then Inl (ValueError ''cannot reshape array'')
      else Inr (slices width fs))"

text \<open>
  The memory map: \<^verbatim>\<open>seek\<close> refuses a position outside the file; \<^verbatim>\<open>read(n)\<close>
  returns the \<open>n\<close> bytes from the position, fewer at the end of the file, and all the
  bytes to the end of the file when \<open>n\<close> is negative.
\<close>

definition mmap_seek :: "byte list \<Rightarrow> int \<Rightarrow> error + nat" where
  "mmap_seek mm pos =
     (if pos < 0 \<or> int (length mm) < pos then Inl (ValueError ''seek out of range'')
      else Inr (nat pos))"

definition mmap_read :: "byte list \<Rightarrow> nat \<Rightarrow> int \<Rightarrow> byte list" where
  "mmap_read mm pos n = (if n < 0 then drop pos mm else take (nat n) (drop pos mm))"

section \<open>The metadata document\<close>

text \<open>
  \<^verbatim>\<open>xmltodict.parse\<close> gives a dictionary for each element with children; the value of
  a child that holds text is the text, and \<^verbatim>\<open>None\<close> when the child is empty. With
  \<^verbatim>\<open>force_list\<close> the \<^verbatim>\<open>Acquisition\<close> and \<^verbatim>\<open>AcquisitionChannel\<close> children of
  the root are lists of dictionaries. Looking up a key that is absent raises
  \<^verbatim>\<open>KeyError\<close>.
\<close>

datatype xval = XText string | XNone

type_synonym xdict = "string \<rightharpoonup> xval"

record mcd_root =
  Acquisition :: "xdict list option"
  AcquisitionChannel :: "xdict list option"

definition lookup :: "xdict \<Rightarrow> string \<Rightarrow> error + xval" where
  "lookup d k = (case d k of None \<Rightarrow> Inl (KeyError k) | Some v \<Rightarrow> Inr v)"

text \<open>How an f-string formats a value.\<close>

fun py_str :: "xval \<Rightarrow> string" where
  "py_str (XText s) = s"
| "py_str XNone = ''None''"

text \<open>
  \<^verbatim>\<open>int(s)\<close> on a string: white space around the literal is dropped, a sign may come
  first, and the digits may be separated by single underscores. Anything else raises
  \<^verbatim>\<open>ValueError\<close>, and \<^verbatim>\<open>int(None)\<close> raises \<^verbatim>\<open>TypeError\<close>. Characters are
  bytes here, so the digits are the ASCII ones.
\<close>

definition is_space :: "char \<Rightarrow> bool" where
  "is_space c = (c \<in> set [CHR '' '', CHR 0x09, CHR 0x0A, CHR 0x0B, CHR 0x0C, CHR 0x0D,
                           CHR 0x1C, CHR 0x1D, CHR 0x1E, CHR 0x1F])"

definition strip :: "string \<Rightarrow> string" where
  "strip s = rev (dropWhile is_space (rev (dropWhile is_space s)))"

definition is_digit :: "char \<Rightarrow> bool" where
  "is_digit c = (48 \<le> (of_char c :: nat) \<and> (of_char c :: nat) \<le> 57)"

definition digit_val :: "char \<Rightarrow> nat" where
  "digit_val c = of_char c - 48"

fun digits_val :: "nat \<Rightarrow> bool \<Rightarrow> string \<Rightarrow> nat option" where
  "digits_val acc prev [] = (if prev then Some acc else None)"
| "digits_val acc prev (c # cs) =
     (if is_digit c then digits_val (10 * acc + digit_val c) True cs
      else if c = CHR ''_'' \<and> prev then digits_val acc False cs
      else None)"

definition int_of_string :: "string \<Rightarrow> int option" where
  "int_of_string s =
     (case strip s of
        [] \<Rightarrow> None
      | c # cs \<Rightarrow>
          if c = CHR ''-'' then map_option (\<lambda>n. - int n) (digits_val 0 False cs)
          else if c = CHR ''+'' then map_option int (digits_val 0 False cs)
          else map_option int (digits_val 0 False (c # cs)))"

fun py_int :: "xval \<Rightarrow> error + int" where
  "py_int XNone = Inl (TypeError ''int() argument must be a string, a bytes-like object or a real number'')"
| "py_int (XText s) =
     (case int_of_string s of
        None \<Rightarrow> Inl (ValueError ''invalid literal for int() with base 10'')
      | Some i \<Rightarrow> Inr i)"

section \<open>The acquisition catalog\<close>

text \<open>
  The channels of an acquisition:
  \<^verbatim>\<open>
    channels = [ch for ch in root["AcquisitionChannel"]
        if ch["AcquisitionID"] == id_ and ch["ChannelName"] not in ("X", "Y", "Z")]
    channels = sorted(channels, key=lambda c: int(c["OrderNumber"]))
  \<close>
  \<^verbatim>\<open>and\<close> looks at the name only when the identifier matches. \<^verbatim>\<open>sorted\<close> computes
  the key of every element first and is stable.
\<close>

definition keep_channel :: "xval \<Rightarrow> xdict \<Rightarrow> error + bool" where
  "keep_channel acq_id ch =
     (case lookup ch ''AcquisitionID'' of
        Inl e \<Rightarrow> Inl e
      | Inr a \<Rightarrow>
          if a \<noteq> acq_id then Inr False
          else (case lookup ch ''ChannelName'' of
                  Inl e \<Rightarrow> Inl e
                | Inr n \<Rightarrow> Inr (n \<notin> set [XText ''X'', XText ''Y'', XText ''Z''])))"

fun select_channels :: "xval \<Rightarrow> xdict list \<Rightarrow> error + xdict list" where
  "select_channels acq_id [] = Inr []"
| "select_channels acq_id (ch # chs) =
     (case keep_channel acq_id ch of
        Inl e \<Rightarrow> Inl e
      | Inr b \<Rightarrow>
          (case select_channels acq_id chs of
             Inl e \<Rightarrow> Inl e
           | Inr r \<Rightarrow> Inr (if b then ch # r else r)))"

definition order_key :: "xdict \<Rightarrow> error + int" where
  "order_key c = (case lookup c ''OrderNumber'' of Inl e \<Rightarrow> Inl e | Inr v \<Rightarrow> py_int v)"

definition sorted_by_order :: "xdict list \<Rightarrow> error + xdict list" where
  "sorted_by_order chs =
     (case collect (map order_key chs) of
        Inl e \<Rightarrow> Inl e
      | Inr ks \<Rightarrow> Inr (map snd (sort_key fst (zip ks chs))))"

definition acquisition_channels :: "mcd_root \<Rightarrow> xval \<Rightarrow> error + xdict list" where
  "acquisition_channels mroot acq_id =
     (case AcquisitionChannel mroot of
        None \<Rightarrow> Inl (KeyError ''AcquisitionChannel'')
      | Some chs \<Rightarrow>
          (case select_channels acq_id chs of
             Inl e \<Rightarrow> Inl e
           | Inr sel \<Rightarrow> sorted_by_order sel))"

text \<open>
  The display name of a channel:
  \<^verbatim>\<open>
    f"{c['ChannelName']}_{c['ChannelLabel']}"
    if c["ChannelLabel"] is not None else c["ChannelName"]
  \<close>
\<close>

definition channel_name :: "xdict \<Rightarrow> error + xval" where
  "channel_name c =
     (case lookup c ''ChannelLabel'' of
        Inl e \<Rightarrow> Inl e
      | Inr l \<Rightarrow>
          (case lookup c ''ChannelName'' of
             Inl e \<Rightarrow> Inl e
           | Inr n \<Rightarrow> Inr (if l \<noteq> XNone then XText (py_str n @ ''_'' @ py_str l) else n)))"

definition channel_names :: "xdict list \<Rightarrow> error + xval list" where
  "channel_names chs = collect (map channel_name chs)"

section \<open>Reading one acquisition\<close>

text \<open>
  The value that \<^verbatim>\<open>read_mcd\<close> yields for an acquisition: the image, its name, the
  labels of the channel axis (the coordinate \<^verbatim>\<open>c\<close>) and the acquisition record as
  attributes. The labels of the
  other two axes are the ranges of the image's shape.
\<close>

record dataarray =
  img :: ndarray3
  name :: string
  c_coords :: "xval list"
  attrs :: xdict

definition apos :: char where
  "apos = CHR 0x27"

definition float32_message :: string where
  "float32_message = ''Expected float32 data in '' @ [apos] @ ''SegmentDataFormat'' @ [apos] @ '' tag.''"

definition missing_message :: string where
  "missing_message = ''Image data is missing values. Try specifying '' @ [apos] @ ''fill_missing'' @ [apos] @ ''.''"

text \<open>
  The test of the declared encoding,
  \<^verbatim>\<open>acq["SegmentDataFormat"] != "Float" or acq["ValueBytes"] != "4"\<close>:
  \<^verbatim>\<open>or\<close> looks at the second key only when the format is \<^verbatim>\<open>"Float"\<close>.
\<close>

definition check_float32 :: "xdict \<Rightarrow> error + unit" where
  "check_float32 acq =
     (case lookup acq ''SegmentDataFormat'' of
        Inl e \<Rightarrow> Inl e
      | Inr f \<Rightarrow>
          if f \<noteq> XText ''Float'' then Inl (NotImplementedError float32_message)
          else (case lookup acq ''ValueBytes'' of
                  Inl e \<Rightarrow> Inl e
                | Inr v \<Rightarrow>
                    if v \<noteq> XText ''4'' then Inl (NotImplementedError float32_message)
                    else Inr ()))"

text \<open>
  Lines 80 to 85: the two offsets are read from the record, the start offset first, for
  \<^verbatim>\<open>seek\<close>, then the end offset and the start offset again, for \<^verbatim>\<open>read\<close>.
\<close>

definition read_records :: "byte list \<Rightarrow> xdict \<Rightarrow> nat \<Rightarrow> error + f32 list list" where
  "read_records mm acq width =
     (case lookup acq ''DataStartOffset'' of
        Inl e \<Rightarrow> Inl e
      | Inr s \<Rightarrow>
          (case py_int s of
             Inl e \<Rightarrow> Inl e
           | Inr data_start \<Rightarrow>
               (case mmap_seek mm data_start of
                  Inl e \<Rightarrow> Inl e
                | Inr pos \<Rightarrow>
                    (case lookup acq ''DataEndOffset'' of
                       Inl e \<Rightarrow> Inl e
                     | Inr t \<Rightarrow>
                         (case py_int t of
                            Inl e \<Rightarrow> Inl e
                          | Inr data_end \<Rightarrow>
                              (case decode_floats (mmap_read mm pos (data_end - data_start)) of
                                 Inl e \<Rightarrow> Inl e
                               | Inr fs \<Rightarrow> reshape_rows fs width))))))"

text \<open>
  Lines 86 to 89:
  \<^verbatim>\<open>
    if fill_missing is None and _is_missing_values(arr):
        raise ValueError("Image data is missing values. Try specifying 'fill_missing'.")
    img = _xyzc_to_arr(arr, fill_missing)
  \<close>
\<close>

definition check_and_reshape :: "f32 list list \<Rightarrow> 64 word option \<Rightarrow> error + ndarray3" where
  "check_and_reshape arr fill_missing =
     (case (if fill_missing = None then is_missing_values arr else Inr False) of
        Inl e \<Rightarrow> Inl e
      | Inr missing \<Rightarrow>
          if missing then Inl (ValueError missing_message)
          else xyzc_to_arr arr fill_missing)"

text \<open>The body of the loop over the acquisitions, lines 70 to 99.\<close>

definition read_acquisition ::
  "byte list \<Rightarrow> string \<Rightarrow> 64 word option \<Rightarrow> mcd_root \<Rightarrow> xdict \<Rightarrow> error + dataarray" where
  "read_acquisition mm stem fill_missing mroot acq =
     (case lookup acq ''ID'' of
        Inl e \<Rightarrow> Inl e
      | Inr acq_id \<Rightarrow>
          (case acquisition_channels mroot acq_id of
             Inl e \<Rightarrow> Inl e
           | Inr channels \<Rightarrow>
               (case check_float32 acq of
                  Inl e \<Rightarrow> Inl e
                | Inr u \<Rightarrow>
                    (case read_records mm acq (length channels + 3) of
                       Inl e \<Rightarrow> Inl e
                     | Inr arr \<Rightarrow>
                         (case check_and_reshape arr fill_missing of
                            Inl e \<Rightarrow> Inl e
                          | Inr im \<Rightarrow>
                              (case channel_names channels of
                                 Inl e \<Rightarrow> Inl e
                               | Inr names \<Rightarrow>
                                   Inr \<lparr>img = im, name = stem @ ''_'' @ py_str acq_id,
                                        c_coords = names, attrs = acq\<rparr>))))))"

text \<open>
  The generator: the arrays yielded, in the order of the acquisitions in the document, and
  the exception that ended the iteration, if one did.
\<close>

fun read_acquisitions ::
  "byte list \<Rightarrow> string \<Rightarrow> 64 word option \<Rightarrow> mcd_root \<Rightarrow> xdict list
     \<Rightarrow> dataarray list \<times> error option" where
  "read_acquisitions mm stem fill_missing mroot [] = ([], None)"
| "read_acquisitions mm stem fill_missing mroot (acq # acqs) =
     (case read_acquisition mm stem fill_missing mroot acq of
        Inl e \<Rightarrow> ([], Some e)
      | Inr d \<Rightarrow>
          (case read_acquisitions mm stem fill_missing mroot acqs of
             (ds, r) \<Rightarrow> (d # ds, r)))"

section \<open>The footer locator\<close>

text \<open>
  \<^verbatim>\<open>rfind\<close> gives the highest index at which the pattern occurs, and \<open>-1\<close> when it
  does not occur.
\<close>

fun rfind_from :: "'a list \<Rightarrow> 'a list \<Rightarrow> nat \<Rightarrow> int" where
  "rfind_from xs sub 0 = (if prefix sub xs then 0 else - 1)"
| "rfind_from xs sub (Suc i) =
     (if prefix sub (drop (Suc i) xs) then int (Suc i) else rfind_from xs sub i)"

definition rfind :: "'a list \<Rightarrow> 'a list \<Rightarrow> int" where
  "rfind xs sub = (if length xs < length sub then - 1 else rfind_from xs sub (length xs - length sub))"

text \<open>
  A text encoding: how it encodes a string, and how it decodes bytes, which may raise.
  The parser of the metadata document, \<^verbatim>\<open>xmltodict.parse(...)["MCDPublic"]\<close>, is a
  parameter of the reader as well.
\<close>

record codec =
  encode :: "string \<Rightarrow> byte list"
  decode :: "byte list \<Rightarrow> error + string"

definition footer_message :: "string \<Rightarrow> string" where
  "footer_message path =
     [apos] @ path @ [apos] @ '' does not contain MCDPublic XML footer (try different encoding?).''"

text \<open>
  Lines 59 to 67:
  \<^verbatim>\<open>
    offset = mm.rfind("<MCDPublic".encode(encoding))
    if offset == -1:
        raise ValueError(f"'{str(path)}' does not contain MCDPublic XML footer (try different encoding?).")
    mm.seek(offset)
    xml = mm.read().decode(encoding)
    root = xmltodict.parse(xml, force_list=("Acquisition", "AcquisitionChannel"))["MCDPublic"]
  \<close>
\<close>

definition read_footer ::
  "codec \<Rightarrow> (string \<Rightarrow> error + mcd_root) \<Rightarrow> string \<Rightarrow> byte list \<Rightarrow> error + mcd_root" where
  "read_footer encoding parse path mm =
     (let offset = rfind mm (encode encoding ''<MCDPublic'') in
      if offset = - 1 then Inl (ValueError (footer_message path))
      else (case decode encoding (mmap_read mm (nat offset) (- 1)) of
              Inl e \<Rightarrow> Inl e
            | Inr xml \<Rightarrow> parse xml))"

definition read_mcd ::
  "codec \<Rightarrow> (string \<Rightarrow> error + mcd_root) \<Rightarrow> string \<Rightarrow> string \<Rightarrow> byte list
     \<Rightarrow> 64 word option \<Rightarrow> dataarray list \<times> error option" where
  "read_mcd encoding parse path stem mm fill_missing =
     (case read_footer encoding parse path mm of
        Inl e \<Rightarrow> ([], Some e)
      | Inr mroot \<Rightarrow>
          (case Acquisition mroot of
             None \<Rightarrow> ([], Some (KeyError ''Acquisition''))
           | Some acquisitions \<Rightarrow> read_acquisitions mm stem fill_missing mroot acquisitions))"

section \<open>The summary of \<^verbatim>\<open>write_ometiff\<close>\<close>

text \<open>
  \<^verbatim>\<open>
    rows = []
    for page, imchannel in enumerate(imarr):
        channel, label = str(imchannel.c.values).split("_")
        rows.append([page, channel, label, imchannel.values.min(), imchannel.values.max()])
  \<close>
  \<^verbatim>\<open>split\<close> cuts the name at every underscore; the assignment to two names raises
  unless there are exactly two parts. The minimum and the maximum of a page are numpy's,
  taken as parameters; they may raise.
\<close>

fun split :: "char \<Rightarrow> string \<Rightarrow> string list" where
  "split sep [] = [[]]"
| "split sep (x # xs) =
     (if x = sep then [] # split sep xs
      else (case split sep xs of
              [] \<Rightarrow> [[x]]
            | p # ps \<Rightarrow> (x # p) # ps))"

definition unpack2 :: "string list \<Rightarrow> error + string \<times> string" where
  "unpack2 parts =
     (case parts of
        [a, b] \<Rightarrow> Inr (a, b)
      | [] \<Rightarrow> Inl (ValueError ''not enough values to unpack (expected 2)'')
      | [a] \<Rightarrow> Inl (ValueError ''not enough values to unpack (expected 2)'')
      | _ \<Rightarrow> Inl (ValueError ''too many values to unpack (expected 2)''))"

fun summary_rows ::
  "('p \<Rightarrow> error + 'v) \<Rightarrow> ('p \<Rightarrow> error + 'v) \<Rightarrow> nat \<Rightarrow> (string \<times> 'p) list
     \<Rightarrow> error + (nat \<times> string \<times> string \<times> 'v \<times> 'v) list" where
  "summary_rows vmin vmax page [] = Inr []"
| "summary_rows vmin vmax page ((cname, values) # rest) =
     (case unpack2 (split CHR ''_'' cname) of
        Inl e \<Rightarrow> Inl e
      | Inr (channel, label) \<Rightarrow>
          (case vmin values of
             Inl e \<Rightarrow> Inl e
           | Inr lo \<Rightarrow>
               (case vmax values of
                  Inl e \<Rightarrow> Inl e
                | Inr hi \<Rightarrow>
                    (case summary_rows vmin vmax (Suc page) rest of
                       Inl e \<Rightarrow> Inl e
                     | Inr rows \<Rightarrow> Inr ((page, channel, label, lo, hi) # rows)))))"

text \<open>
  What \<^verbatim>\<open>write_ometiff\<close> hands to the summary file: nothing when \<^verbatim>\<open>summary\<close> is
  false, the rows of the table otherwise. Writing the image itself is left to the
  \<^verbatim>\<open>tifffile\<close> library and is not part of the model.
\<close>

definition write_ometiff ::
  "('p \<Rightarrow> error + 'v) \<Rightarrow> ('p \<Rightarrow> error + 'v) \<Rightarrow> (string \<times> 'p) list \<Rightarrow> bool
     \<Rightarrow> error + (nat \<times> string \<times> string \<times> 'v \<times> 'v) list option" where
  "write_ometiff vmin vmax imarr summary =
     (if summary
      then (case summary_rows vmin vmax 0 imarr of
              Inl e \<Rightarrow> Inl e
            | Inr rows \<Rightarrow> Inr (Some rows))
      else Inr None)"

section \<open>Well-formed streams\<close>


section \<open>Occurrences of a pattern\<close>



section \<open>Order numbers and selected records\<close>

text \<open>
  The order number of a channel record whose \<^verbatim>\<open>OrderNumber\<close> is an integer literal, and
  the test of the comprehension when it does not raise.
\<close>

definition order_number :: "xdict \<Rightarrow> int" where
  "order_number ch = (case order_key ch of Inl e \<Rightarrow> 0 | Inr k \<Rightarrow> k)"

definition selected :: "xval \<Rightarrow> xdict \<Rightarrow> bool" where
  "selected acq_id ch = (keep_channel acq_id ch = Inr True)"

section \<open>Example records\<close>

text \<open>
  A channel record and an acquisition record as \<^verbatim>\<open>xmltodict\<close> gives them, with the keys
  that \<^verbatim>\<open>read_mcd\<close> looks up; a metadata document with two acquisitions, the second of
  8-byte values; and a file of one record, the pixel \<open>(0, 0)\<close> with the value 1.0.
\<close>

definition channel_record :: "string \<Rightarrow> string \<Rightarrow> xval \<Rightarrow> string \<Rightarrow> xdict" where
  "channel_record acq_id cname label order_no =
     [''AcquisitionID'' \<mapsto> XText acq_id, ''ChannelName'' \<mapsto> XText cname,
      ''ChannelLabel'' \<mapsto> label, ''OrderNumber'' \<mapsto> XText order_no]"

definition acquisition_record :: "string \<Rightarrow> string \<Rightarrow> string \<Rightarrow> string \<Rightarrow> string \<Rightarrow> xdict" where
  "acquisition_record acq_id fmt bytes data_start data_end =
     [''ID'' \<mapsto> XText acq_id, ''SegmentDataFormat'' \<mapsto> XText fmt, ''ValueBytes'' \<mapsto> XText bytes,
      ''DataStartOffset'' \<mapsto> XText data_start, ''DataEndOffset'' \<mapsto> XText data_end]"

definition example_root :: mcd_root where
  "example_root =
     \<lparr>Acquisition = Some [acquisition_record ''1'' ''Float'' ''4'' ''0'' ''16'',
                          acquisition_record ''7'' ''Float'' ''8'' ''16'' ''32''],
      AcquisitionChannel = Some
        [channel_record ''1'' ''X'' XNone ''1'', channel_record ''1'' ''Y'' XNone ''2'',
         channel_record ''1'' ''Z'' XNone ''3'',
         channel_record ''1'' ''Ir191'' (XText ''DNA'') ''4'']\<rparr>"

definition example_mm :: "byte list" where
  "example_mm = [0, 0, 0, 0, 0, 0, 0, 0, 0, 0, 0, 0, 0, 0, 0x80, 0x3F]"

section \<open>The raw layout of a grid\<close>




section \<open>Properties of the grid reshaper\<close>

lemma wrap64_id: "- (2 ^ 63) \<le> i \<Longrightarrow> i < 2 ^ 63 \<Longrightarrow> wrap64 i = i"
  unfolding wrap64_def by (simp add: mod_pos_pos_trivial)










lemma concat_drop3_map:
  "concat (map (drop 3) (map (map f) arr)) = map f (concat (map (drop 3) arr))"
  by (induction arr) (auto simp: drop_map)



lemma xyzc_to_arr_no_fill:
  assumes "xyzc_to_arr arr None = Inr im"
  shows "data im = map Float32 (concat (map (drop 3) arr))"
  using assms
  by (auto simp: xyzc_to_arr_def reshape3_def Let_def concat_drop3_map [simplified] split: sum.splits prod.splits if_splits)






lemmas f32_defs = astype_int_def f32_trunc_def f32_finite_def f32_exp_def f32_man_def
  f32_mag_def f32_sign_def f32_isnan_def f32_isinf_def f32_val_def f32_ord_def

lemmas reshape_defs = check_and_reshape_def is_missing_values_def count_differs_def
  xyzc_to_arr_def grid_dims_def np_max_def np_maximum_def np_ones_times_def reshape3_def
  wrap64_def

text \<open>
  Claim C1 (row-order invariance) does not hold of \<^verbatim>\<open>_xyzc_to_arr\<close>: the image is the
  channel columns of the rows in the order of the input, cut into lines of \<open>xsz\<close>
  cells, and the coordinates of a row only contribute to the two maxima. The two rows
  \<open>(x = 0, y = 0, value 1.0)\<close> and \<open>(x = 1, y = 0, value 2.0)\<close> give the image
  \<open>[1.0, 2.0]\<close> in this order and the image \<open>[2.0, 1.0]\<close> in the other order, with no
  error in either case: in the second image the cell of line 0 and column 0 holds the
  value of the row with \<open>x = 1\<close>.
\<close>

theorem xyzc_to_arr_follows_input_order:
  "mset [[0x3F800000, 0, 0, 0x40000000], [0, 0, 0, 0x3F800000 :: f32]]
     = mset [[0, 0, 0, 0x3F800000], [0x3F800000, 0, 0, 0x40000000]]
   \<and> check_and_reshape [[0, 0, 0, 0x3F800000], [0x3F800000, 0, 0, 0x40000000]] None
     = Inr \<lparr>shape = (1, 2, 1), data = [Float32 0x3F800000, Float32 0x40000000]\<rparr>
   \<and> check_and_reshape [[0x3F800000, 0, 0, 0x40000000], [0, 0, 0, 0x3F800000]] None
     = Inr \<lparr>shape = (1, 2, 1), data = [Float32 0x40000000, Float32 0x3F800000]\<rparr>"
proof (intro conjI)
  show "mset [[0x3F800000, 0, 0, 0x40000000], [0, 0, 0, 0x3F800000 :: f32]]
     = mset [[0, 0, 0, 0x3F800000], [0x3F800000, 0, 0, 0x40000000]]"
    by (simp add: add_mset_commute)
  show "check_and_reshape [[0, 0, 0, 0x3F800000], [0x3F800000, 0, 0, 0x40000000]] None
     = Inr \<lparr>shape = (1, 2, 1), data = [Float32 0x3F800000, Float32 0x40000000]\<rparr>"
    by (simp add: reshape_defs f32_defs)
  show "check_and_reshape [[0x3F800000, 0, 0, 0x40000000], [0, 0, 0, 0x3F800000]] None
     = Inr \<lparr>shape = (1, 2, 1), data = [Float32 0x40000000, Float32 0x3F800000]\<rparr>"
    by (simp add: reshape_defs f32_defs)
qed




text \<open>
  Claim C9: when the stream has more rows than \<open>(maxX+1) * (maxY+1)\<close> and a fill value is
  given, the number of rows to pad with is negative and \<^verbatim>\<open>np.ones\<close> raises; no image
  is returned and no row is dropped. The sizes are positive, as they are for coordinates
  that are not negative, and the number of rows fits a 64-bit integer.
\<close>

theorem xyzc_to_arr_over_reported:
  assumes dims: "grid_dims arr = Inr (xsz, ysz)"
    and pos: "0 < xsz" "0 < ysz"
    and over: "xsz * ysz < int (length arr)"
    and len: "int (length arr) < 2 ^ 63"
  shows "xyzc_to_arr arr (Some v) = Inl (ValueError ''negative dimensions are not allowed'')"
proof -
  have p0: "0 < xsz * ysz" using pos by simp
  have w1: "wrap64 (xsz * ysz) = xsz * ysz"
    using p0 over len by (intro wrap64_id) auto
  have w2: "wrap64 (xsz * ysz - int (length arr)) = xsz * ysz - int (length arr)"
    using p0 over len by (intro wrap64_id) auto
  show ?thesis
    using over by (simp add: xyzc_to_arr_def dims w1 w2 np_ones_times_def)
qed

theorem xyzc_to_arr_over_reported_witness:
  "xyzc_to_arr [[0, 0, 0, 0x3F800000], [0, 0, 0, 0x40000000]] (Some 0)
     = Inl (ValueError ''negative dimensions are not allowed'')"
  using xyzc_to_arr_over_reported [of "[[0, 0, 0, 0x3F800000], [0, 0, 0, 0x40000000]]" 1 1 0]
  by (simp add: grid_dims_def np_max_def np_maximum_def wrap64_def f32_defs)

section \<open>Properties of the raw record decoder\<close>



lemma collect_all_ok:
  "\<forall>x\<in>set xs. f x = Inr (g x) \<Longrightarrow> collect (map f xs) = Inr (map g xs)"
  by (induction xs) auto






lemmas py_int_defs = int_of_string_def strip_def is_space_def is_digit_def digit_val_def



section \<open>Properties of the footer locator\<close>







section \<open>Properties of the acquisition catalog\<close>

lemma select_channels_Inr:
  "select_channels acq_id chs = Inr r \<Longrightarrow>
     r = filter (selected acq_id) chs \<and> (\<forall>ch\<in>set chs. \<exists>b. keep_channel acq_id ch = Inr b)"
proof (induction chs arbitrary: r)
  case Nil then show ?case by simp
next
  case (Cons ch chs)
  then show ?case
    by (auto simp: selected_def split: sum.splits if_splits)
qed

lemma select_channels_ok:
  "\<forall>ch\<in>set chs. \<exists>b. keep_channel acq_id ch = Inr b \<Longrightarrow>
     select_channels acq_id chs = Inr (filter (selected acq_id) chs)"
  by (induction chs) (auto simp: selected_def)

lemma collect_Inr:
  "collect (map f xs) = Inr ks \<Longrightarrow> \<forall>x\<in>set xs. \<exists>k. f x = Inr k"
proof (induction xs arbitrary: ks)
  case Nil then show ?case by simp
next
  case (Cons x xs)
  then show ?case by (cases "f x") (auto split: sum.splits)
qed


lemma insort_key_map:
  "insort_key k (g x) (map g ys) = map g (insort_key (\<lambda>a. k (g a)) x ys)"
  by (induction ys) auto

lemma sort_key_map: "sort_key k (map g xs) = map g (sort_key (\<lambda>a. k (g a)) xs)"
  by (induction xs) (auto simp: insort_key_map)

lemma sort_decorated: "map snd (sort_key fst (zip (map f xs) xs)) = sort_key f xs"
proof -
  have "zip (map f xs) xs = map (\<lambda>x. (f x, x)) xs" by (induction xs) auto
  then have "sort_key fst (zip (map f xs) xs) = map (\<lambda>x. (f x, x)) (sort_key f xs)"
    by (simp add: sort_key_map)
  then show ?thesis by (simp add: comp_def)
qed

lemma sorted_by_order_Inr:
  assumes "sorted_by_order chs = Inr r"
  shows "r = sort_key order_number chs" "\<forall>c\<in>set chs. \<exists>k. order_key c = Inr k"
proof -
  obtain ks where ks: "collect (map order_key chs) = Inr ks"
    using assms by (auto simp: sorted_by_order_def split: sum.splits)
  from collect_Inr [OF this] show ok: "\<forall>c\<in>set chs. \<exists>k. order_key c = Inr k" .
  then have "\<forall>c\<in>set chs. order_key c = Inr (order_number c)"
    by (auto simp: order_number_def)
  then have "collect (map order_key chs) = Inr (map order_number chs)"
    by (rule collect_all_ok)
  then show "r = sort_key order_number chs"
    using assms by (simp add: sorted_by_order_def sort_decorated)
qed

lemma sorted_by_order_ok:
  assumes "\<forall>c\<in>set chs. \<exists>k. order_key c = Inr k"
  shows "sorted_by_order chs = Inr (sort_key order_number chs)"
proof -
  from assms have "\<forall>c\<in>set chs. order_key c = Inr (order_number c)"
    by (auto simp: order_number_def)
  then have "collect (map order_key chs) = Inr (map order_number chs)"
    by (rule collect_all_ok)
  then show ?thesis by (simp add: sorted_by_order_def sort_decorated)
qed

lemma acquisition_channels_Inr:
  assumes "acquisition_channels mroot acq_id = Inr chans"
  shows "\<exists>chs. AcquisitionChannel mroot = Some chs
           \<and> chans = sort_key order_number (filter (selected acq_id) chs)
           \<and> (\<forall>ch\<in>set chs. \<exists>b. keep_channel acq_id ch = Inr b)
           \<and> (\<forall>c\<in>set chs. selected acq_id c \<longrightarrow> (\<exists>k. order_key c = Inr k))"
proof -
  obtain chs sel where chs: "AcquisitionChannel mroot = Some chs"
    and sel: "select_channels acq_id chs = Inr sel" and srt: "sorted_by_order sel = Inr chans"
    using assms by (auto simp: acquisition_channels_def split: option.splits sum.splits)
  from select_channels_Inr [OF sel] sorted_by_order_Inr [OF srt] chs show ?thesis by auto
qed

lemma acquisition_channels_ok:
  assumes "AcquisitionChannel mroot = Some chs"
    and "\<forall>ch\<in>set chs. \<exists>b. keep_channel acq_id ch = Inr b"
    and "\<forall>c\<in>set chs. selected acq_id c \<longrightarrow> (\<exists>k. order_key c = Inr k)"
  shows "acquisition_channels mroot acq_id = Inr (sort_key order_number (filter (selected acq_id) chs))"
  using assms select_channels_ok [OF assms(2)]
    sorted_by_order_ok [of "filter (selected acq_id) chs"]
  by (simp add: acquisition_channels_def)

text \<open>
  Claim C5: the channels of an acquisition are the channel records of the document whose
  \<^verbatim>\<open>AcquisitionID\<close> is the identifier of the acquisition (the coordinate records
  \<open>X\<close>, \<open>Y\<close>, \<open>Z\<close> left out, see C6), in ascending order of \<^verbatim>\<open>OrderNumber\<close>. The
  order of the records in the document does not matter: a document with the same records
  in another order gives the same sequence, when the order numbers of the selected
  records are distinct. The label of a channel on the image is \<open>name_label\<close> when the
  record has a label and the name alone when it has none.
\<close>

theorem acquisition_channels_sorted:
  assumes "acquisition_channels mroot acq_id = Inr chans"
    and "AcquisitionChannel mroot = Some chs"
  shows "sorted (map order_number chans)
       \<and> mset chans = mset (filter (selected acq_id) chs)
       \<and> (\<forall>chs'. mset chs' = mset chs \<and> inj_on order_number {ch \<in> set chs. selected acq_id ch}
             \<longrightarrow> acquisition_channels (mroot\<lparr>AcquisitionChannel := Some chs'\<rparr>) acq_id = Inr chans)
       \<and> (\<forall>names. channel_names chans = Inr names \<longrightarrow>
             length names = length chans
             \<and> (\<forall>i < length chans. \<forall>n l.
                   (chans ! i) ''ChannelName'' = Some n \<and> (chans ! i) ''ChannelLabel'' = Some l
                   \<longrightarrow> names ! i = (if l = XNone then n else XText (py_str n @ ''_'' @ py_str l))))"
proof -
  from acquisition_channels_Inr [OF assms(1)] assms(2)
  have chans: "chans = sort_key order_number (filter (selected acq_id) chs)"
    and keep: "\<forall>ch\<in>set chs. \<exists>b. keep_channel acq_id ch = Inr b"
    and keys: "\<forall>c\<in>set chs. selected acq_id c \<longrightarrow> (\<exists>k. order_key c = Inr k)"
    by auto
  have 1: "sorted (map order_number chans)" unfolding chans by simp
  have 2: "mset chans = mset (filter (selected acq_id) chs)" unfolding chans by simp
  have 3: "acquisition_channels (mroot\<lparr>AcquisitionChannel := Some chs'\<rparr>) acq_id = Inr chans"
    if "mset chs' = mset chs \<and> inj_on order_number {ch \<in> set chs. selected acq_id ch}" for chs'
  proof -
    have set: "set chs' = set chs" using that by (metis set_mset_mset)
    have "acquisition_channels (mroot\<lparr>AcquisitionChannel := Some chs'\<rparr>) acq_id
            = Inr (sort_key order_number (filter (selected acq_id) chs'))"
      by (rule acquisition_channels_ok) (simp_all add: set keep keys)
    moreover have "sort_key order_number (filter (selected acq_id) chs')
                     = sort_key order_number (filter (selected acq_id) chs)"
    proof (rule sort_key_eq_sort_key)
      show "mset (filter (selected acq_id) chs') = mset (filter (selected acq_id) chs)"
        using that by simp
      show "inj_on order_number (set (filter (selected acq_id) chs'))"
        using that set by (simp add: Collect_conj_eq Int_commute)
    qed
    ultimately show ?thesis unfolding chans by simp
  qed
  have 4: "length names = length chans
             \<and> (\<forall>i < length chans. \<forall>n l.
                   (chans ! i) ''ChannelName'' = Some n \<and> (chans ! i) ''ChannelLabel'' = Some l
                   \<longrightarrow> names ! i = (if l = XNone then n else XText (py_str n @ ''_'' @ py_str l)))"
    if names: "channel_names chans = Inr names" for names
  proof -
    from collect_Inr [OF names [unfolded channel_names_def]]
    have ok: "\<forall>x\<in>set chans. \<exists>k. channel_name x = Inr k" .
    define g where "g c = (case channel_name c of Inl e \<Rightarrow> XNone | Inr k \<Rightarrow> k)" for c
    have "\<forall>x\<in>set chans. channel_name x = Inr (g x)" using ok by (auto simp: g_def)
    from collect_all_ok [OF this] names have n: "names = map g chans"
      by (simp add: channel_names_def)
    have "names ! i = (if l = XNone then n else XText (py_str n @ ''_'' @ py_str l))"
      if "i < length chans" "(chans ! i) ''ChannelName'' = Some n" "(chans ! i) ''ChannelLabel'' = Some l"
      for i n l
      using that unfolding n by (simp add: g_def channel_name_def lookup_def)
    then show ?thesis using n by simp
  qed
  show ?thesis using 1 2 3 4 by blast
qed

lemma order_number_record [simp]:
  "order_number (channel_record a n l ''1'') = 1"
  "order_number (channel_record a n l ''2'') = 2"
  "order_number (channel_record a n l ''3'') = 3"
  by (simp_all add: order_number_def order_key_def lookup_def channel_record_def py_int_defs)

lemma keep_record [simp]:
  "keep_channel (XText a) (channel_record a n l k) = Inr (n \<noteq> ''X'' \<and> n \<noteq> ''Y'' \<and> n \<noteq> ''Z'')"
  by (simp add: keep_channel_def lookup_def channel_record_def)

lemma order_key_record:
  "order_key (channel_record a n l ''1'') = Inr 1"
  "order_key (channel_record a n l ''2'') = Inr 2"
  "order_key (channel_record a n l ''3'') = Inr 3"
  by (simp_all add: order_key_def lookup_def channel_record_def py_int_defs)

lemma acq_chans_example:
  "acquisition_channels \<lparr>Acquisition = None, AcquisitionChannel = Some
        [channel_record ''1'' ''C'' XNone ''3'', channel_record ''1'' ''X'' XNone ''1'',
         channel_record ''1'' ''A'' (XText ''a'') ''1'', channel_record ''1'' ''B'' XNone ''2'']\<rparr>
      (XText ''1'')
    = Inr [channel_record ''1'' ''A'' (XText ''a'') ''1'', channel_record ''1'' ''B'' XNone ''2'',
           channel_record ''1'' ''C'' XNone ''3'']"
  by (simp add: acquisition_channels_def sorted_by_order_def order_key_record)

theorem acquisition_channels_sorted_witness:
  "sorted (map order_number
      [channel_record ''1'' ''A'' (XText ''a'') ''1'', channel_record ''1'' ''B'' XNone ''2'',
       channel_record ''1'' ''C'' XNone ''3''])
   \<and> acquisition_channels \<lparr>Acquisition = None, AcquisitionChannel = Some
        [channel_record ''1'' ''B'' XNone ''2'', channel_record ''1'' ''A'' (XText ''a'') ''1'',
         channel_record ''1'' ''X'' XNone ''1'', channel_record ''1'' ''C'' XNone ''3'']\<rparr>
      (XText ''1'')
      = Inr [channel_record ''1'' ''A'' (XText ''a'') ''1'', channel_record ''1'' ''B'' XNone ''2'',
           channel_record ''1'' ''C'' XNone ''3'']
   \<and> channel_names [channel_record ''1'' ''A'' (XText ''a'') ''1'', channel_record ''1'' ''B'' XNone ''2'',
           channel_record ''1'' ''C'' XNone ''3'']
      = Inr [XText ''A_a'', XText ''B'', XText ''C'']"
proof -
  let ?A = "channel_record ''1'' ''A'' (XText ''a'') ''1''"
  let ?B = "channel_record ''1'' ''B'' XNone ''2''"
  let ?C = "channel_record ''1'' ''C'' XNone ''3''"
  let ?X = "channel_record ''1'' ''X'' XNone ''1''"
  let ?root = "\<lparr>Acquisition = None, AcquisitionChannel = Some [?C, ?X, ?A, ?B]\<rparr>"
  have chs: "AcquisitionChannel ?root = Some [?C, ?X, ?A, ?B]" by simp
  note inst = acquisition_channels_sorted [of ?root "XText ''1''" "[?A, ?B, ?C]" "[?C, ?X, ?A, ?B]",
      OF acq_chans_example chs]
  have names: "channel_names [?A, ?B, ?C] = Inr [XText ''A_a'', XText ''B'', XText ''C'']"
    by (simp add: channel_names_def channel_name_def lookup_def channel_record_def)
  have sel: "{ch \<in> set [?C, ?X, ?A, ?B]. selected (XText ''1'') ch} = {?A, ?B, ?C}"
    by (auto simp: selected_def)
  have inj: "inj_on order_number {ch \<in> set [?C, ?X, ?A, ?B]. selected (XText ''1'') ch}"
    unfolding sel by (rule inj_onI) auto
  have perm: "mset [?B, ?A, ?X, ?C] = mset [?C, ?X, ?A, ?B]" by (simp add: add_mset_commute)
  from inst have 1: "sorted (map order_number [?A, ?B, ?C])" by (rule conjunct1)
  from inst have "\<forall>chs'. mset chs' = mset [?C, ?X, ?A, ?B]
        \<and> inj_on order_number {ch \<in> set [?C, ?X, ?A, ?B]. selected (XText ''1'') ch}
      \<longrightarrow> acquisition_channels (?root\<lparr>AcquisitionChannel := Some chs'\<rparr>) (XText ''1'')
          = Inr [?A, ?B, ?C]"
    by (elim conjE)
  from this [rule_format, of "[?B, ?A, ?X, ?C]", OF conjI, OF perm inj]
  have 2: "acquisition_channels \<lparr>Acquisition = None, AcquisitionChannel = Some [?B, ?A, ?X, ?C]\<rparr> (XText ''1'')
          = Inr [?A, ?B, ?C]" by simp
  show ?thesis using 1 2 names by (simp only: simp_thms)
qed

lemma selected_name:
  "selected acq_id ch \<Longrightarrow>
     \<exists>n. ch ''ChannelName'' = Some n \<and> n \<noteq> XText ''X'' \<and> n \<noteq> XText ''Y'' \<and> n \<noteq> XText ''Z''"
  by (auto simp: selected_def keep_channel_def lookup_def split: option.splits if_splits)

lemma underscore_name: "a @ CHR ''_'' # b \<noteq> [x]" if "x \<noteq> CHR ''_''"
proof
  assume "a @ CHR ''_'' # b = [x]"
  then have "CHR ''_'' \<in> set [x]" by (metis in_set_conv_decomp)
  with that show False by simp
qed

lemma channel_name_not_coordinate:
  assumes "selected acq_id ch" "channel_name ch = Inr v"
  shows "v \<noteq> XText ''X'' \<and> v \<noteq> XText ''Y'' \<and> v \<noteq> XText ''Z''"
proof -
  from selected_name [OF assms(1)] obtain n where n: "ch ''ChannelName'' = Some n"
    "n \<noteq> XText ''X''" "n \<noteq> XText ''Y''" "n \<noteq> XText ''Z''" by blast
  obtain l where l: "ch ''ChannelLabel'' = Some l"
    using assms(2) by (auto simp: channel_name_def lookup_def split: option.splits)
  have v: "v = (if l \<noteq> XNone then XText (py_str n @ ''_'' @ py_str l) else n)"
    using assms(2) n l by (simp add: channel_name_def lookup_def)
  show ?thesis
  proof (cases "l = XNone")
    case True with v n show ?thesis by simp
  next
    case False
    with v show ?thesis by (simp add: underscore_name)
  qed
qed

lemma collect_set:
  "collect (map f xs) = Inr ks \<Longrightarrow> \<forall>k\<in>set ks. \<exists>x\<in>set xs. f x = Inr k"
proof (induction xs arbitrary: ks)
  case Nil then show ?case by simp
next
  case (Cons x xs)
  then show ?case by (cases "f x") (auto split: sum.splits)
qed

lemma bind_Inr:
  "(case x of Inl e \<Rightarrow> Inl e | Inr v \<Rightarrow> f v) = Inr d \<Longrightarrow> \<exists>v. x = Inr v \<and> f v = Inr d"
  by (cases x) auto

lemma read_acquisition_Inr:
  assumes "read_acquisition mm stem fill_missing mroot acq = Inr d"
  shows "\<exists>acq_id channels arr.
           lookup acq ''ID'' = Inr acq_id
           \<and> acquisition_channels mroot acq_id = Inr channels
           \<and> check_float32 acq = Inr ()
           \<and> read_records mm acq (length channels + 3) = Inr arr
           \<and> check_and_reshape arr fill_missing = Inr (img d)
           \<and> channel_names channels = Inr (c_coords d)"
proof -
  from bind_Inr [OF assms [unfolded read_acquisition_def]]
  obtain acq_id where 1: "lookup acq ''ID'' = Inr acq_id" and r1: "(case acquisition_channels mroot acq_id of
         Inl e \<Rightarrow> Inl e
       | Inr channels \<Rightarrow>
           (case check_float32 acq of
              Inl e \<Rightarrow> Inl e
            | Inr u \<Rightarrow>
                (case read_records mm acq (length channels + 3) of
                   Inl e \<Rightarrow> Inl e
                 | Inr arr \<Rightarrow>
                     (case check_and_reshape arr fill_missing of
                        Inl e \<Rightarrow> Inl e
                      | Inr im \<Rightarrow>
                          (case channel_names channels of
                             Inl e \<Rightarrow> Inl e
                           | Inr names \<Rightarrow>
                               Inr \<lparr>img = im, name = stem @ ''_'' @ py_str acq_id,
                                    c_coords = names, attrs = acq\<rparr>))))) = Inr d" by blast
  from bind_Inr [OF r1] obtain channels where 2: "acquisition_channels mroot acq_id = Inr channels"
    and r2: "(case check_float32 acq of
              Inl e \<Rightarrow> Inl e
            | Inr u \<Rightarrow>
                (case read_records mm acq (length channels + 3) of
                   Inl e \<Rightarrow> Inl e
                 | Inr arr \<Rightarrow>
                     (case check_and_reshape arr fill_missing of
                        Inl e \<Rightarrow> Inl e
                      | Inr im \<Rightarrow>
                          (case channel_names channels of
                             Inl e \<Rightarrow> Inl e
                           | Inr names \<Rightarrow>
                               Inr \<lparr>img = im, name = stem @ ''_'' @ py_str acq_id,
                                    c_coords = names, attrs = acq\<rparr>)))) = Inr d" by blast
  from bind_Inr [OF r2] obtain u where 3: "check_float32 acq = Inr u"
    and r3: "(case read_records mm acq (length channels + 3) of
                   Inl e \<Rightarrow> Inl e
                 | Inr arr \<Rightarrow>
                     (case check_and_reshape arr fill_missing of
                        Inl e \<Rightarrow> Inl e
                      | Inr im \<Rightarrow>
                          (case channel_names channels of
                             Inl e \<Rightarrow> Inl e
                           | Inr names \<Rightarrow>
                               Inr \<lparr>img = im, name = stem @ ''_'' @ py_str acq_id,
                                    c_coords = names, attrs = acq\<rparr>))) = Inr d" by blast
  from bind_Inr [OF r3] obtain arr where 4: "read_records mm acq (length channels + 3) = Inr arr"
    and r4: "(case check_and_reshape arr fill_missing of
                        Inl e \<Rightarrow> Inl e
                      | Inr im \<Rightarrow>
                          (case channel_names channels of
                             Inl e \<Rightarrow> Inl e
                           | Inr names \<Rightarrow>
                               Inr \<lparr>img = im, name = stem @ ''_'' @ py_str acq_id,
                                    c_coords = names, attrs = acq\<rparr>)) = Inr d" by blast
  from bind_Inr [OF r4] obtain im where 5: "check_and_reshape arr fill_missing = Inr im"
    and r5: "(case channel_names channels of
                             Inl e \<Rightarrow> Inl e
                           | Inr names \<Rightarrow>
                               Inr \<lparr>img = im, name = stem @ ''_'' @ py_str acq_id,
                                    c_coords = names, attrs = acq\<rparr>) = Inr d" by blast
  from bind_Inr [OF r5] obtain names where 6: "channel_names channels = Inr names"
    and d: "Inr \<lparr>img = im, name = stem @ ''_'' @ py_str acq_id,
                                    c_coords = names, attrs = acq\<rparr> = (Inr d :: error + dataarray)" by blast
  from d have "img d = im" "c_coords d = names" by auto
  with 1 2 3 4 5 6 show ?thesis by auto
qed

text \<open>
  Claim C6: whenever an acquisition is read, none of the labels of the channel axis of
  the image is \<open>X\<close>, \<open>Y\<close> or \<open>Z\<close>, and the labels are those of channel records none
  of which is named \<open>X\<close>, \<open>Y\<close> or \<open>Z\<close>.
\<close>

theorem coordinate_channels_excluded:
  assumes "read_acquisition mm stem fill_missing mroot acq = Inr d"
  shows "XText ''X'' \<notin> set (c_coords d) \<and> XText ''Y'' \<notin> set (c_coords d)
       \<and> XText ''Z'' \<notin> set (c_coords d)
       \<and> (\<exists>acq_id channels. lookup acq ''ID'' = Inr acq_id
             \<and> acquisition_channels mroot acq_id = Inr channels
             \<and> channel_names channels = Inr (c_coords d)
             \<and> (\<forall>ch\<in>set channels. ch ''ChannelName'' \<noteq> Some (XText ''X'')
                   \<and> ch ''ChannelName'' \<noteq> Some (XText ''Y'')
                   \<and> ch ''ChannelName'' \<noteq> Some (XText ''Z'')))"
proof -
  from read_acquisition_Inr [OF assms] obtain acq_id channels where
    id: "lookup acq ''ID'' = Inr acq_id"
    and chans: "acquisition_channels mroot acq_id = Inr channels"
    and names: "channel_names channels = Inr (c_coords d)" by blast
  from acquisition_channels_Inr [OF chans]
  have sel: "\<forall>ch\<in>set channels. selected acq_id ch" by auto
  have a: "v \<noteq> XText ''X'' \<and> v \<noteq> XText ''Y'' \<and> v \<noteq> XText ''Z''" if "v \<in> set (c_coords d)" for v
  proof -
    from collect_set [OF names [unfolded channel_names_def]] that
    obtain ch where "ch \<in> set channels" "channel_name ch = Inr v" by blast
    with sel channel_name_not_coordinate show ?thesis by blast
  qed
  have b: "\<forall>ch\<in>set channels. ch ''ChannelName'' \<noteq> Some (XText ''X'')
                   \<and> ch ''ChannelName'' \<noteq> Some (XText ''Y'')
                   \<and> ch ''ChannelName'' \<noteq> Some (XText ''Z'')"
    using sel selected_name by fastforce
  show ?thesis using a b id chans names by blast
qed

lemma example_channels:
  "acquisition_channels example_root (XText ''1'')
     = Inr [channel_record ''1'' ''Ir191'' (XText ''DNA'') ''4'']"
  by (simp add: example_root_def acquisition_channels_def sorted_by_order_def order_key_def
      lookup_def channel_record_def py_int_defs keep_channel_def)

lemma upt_4: "[0 ..< 4] = [0, 1, 2, 3]"
  by (simp add: numeral_eq_Suc upt_rec)

lemma example_floats: "decode_floats example_mm = Inr [0, 0, 0, 0x3F800000]"
  by (simp add: decode_floats_def slices_def example_mm_def upt_4 unpack_f_def le32_def
      f32_quiet_def f32_isnan_def f32_exp_def f32_man_def)

lemma example_records:
  "read_records example_mm (acquisition_record ''1'' ''Float'' ''4'' ''0'' ''16'') 4
     = Inr [[0, 0, 0, 0x3F800000]]"
proof -
  have "mmap_read example_mm 0 16 = example_mm"
    by (simp add: mmap_read_def example_mm_def)
  moreover have "mmap_seek example_mm 0 = Inr 0"
    by (simp add: mmap_seek_def)
  moreover have "reshape_rows [0, 0, 0, 0x3F800000] 4 = Inr [[0, 0, 0, 0x3F800000]]"
    by (simp add: reshape_rows_def slices_def)
  ultimately show ?thesis
    by (simp add: read_records_def lookup_def acquisition_record_def py_int_defs example_floats)
qed

lemma example_image:
  "check_and_reshape [[0, 0, 0, 0x3F800000]] None
     = Inr \<lparr>shape = (1, 1, 1), data = [Float32 0x3F800000]\<rparr>"
  by (simp add: reshape_defs f32_defs)

lemma example_acquisition:
  "read_acquisition example_mm ''a'' None example_root
       (acquisition_record ''1'' ''Float'' ''4'' ''0'' ''16'')
     = Inr \<lparr>img = \<lparr>shape = (1, 1, 1), data = [Float32 0x3F800000]\<rparr>, name = ''a_1'',
            c_coords = [XText ''Ir191_DNA''],
            attrs = acquisition_record ''1'' ''Float'' ''4'' ''0'' ''16''\<rparr>"
proof -
  have id: "lookup (acquisition_record ''1'' ''Float'' ''4'' ''0'' ''16'') ''ID'' = Inr (XText ''1'')"
    by (simp add: lookup_def acquisition_record_def)
  have fmt: "check_float32 (acquisition_record ''1'' ''Float'' ''4'' ''0'' ''16'') = Inr ()"
    by (simp add: check_float32_def lookup_def acquisition_record_def)
  have names: "channel_names [channel_record ''1'' ''Ir191'' (XText ''DNA'') ''4'']
                 = Inr [XText ''Ir191_DNA'']"
    by (simp add: channel_names_def channel_name_def lookup_def channel_record_def)
  show ?thesis
    by (simp add: read_acquisition_def id example_channels fmt example_records example_image names)
qed

theorem coordinate_channels_excluded_witness:
  "XText ''X'' \<notin> set [XText ''Ir191_DNA''] \<and> XText ''Y'' \<notin> set [XText ''Ir191_DNA'']
   \<and> XText ''Z'' \<notin> set [XText ''Ir191_DNA'']
   \<and> (\<exists>acq_id channels.
         lookup (acquisition_record ''1'' ''Float'' ''4'' ''0'' ''16'') ''ID'' = Inr acq_id
         \<and> acquisition_channels example_root acq_id = Inr channels
         \<and> channel_names channels = Inr [XText ''Ir191_DNA'']
         \<and> (\<forall>ch\<in>set channels. ch ''ChannelName'' \<noteq> Some (XText ''X'')
               \<and> ch ''ChannelName'' \<noteq> Some (XText ''Y'')
               \<and> ch ''ChannelName'' \<noteq> Some (XText ''Z'')))"
  using coordinate_channels_excluded [OF example_acquisition] by simp




section \<open>Properties of the summary\<close>

lemma split_nonempty: "split sep s \<noteq> []"
  by (induction s) (auto split: list.splits)

lemma length_split: "length (split sep s) = Suc (count_list s sep)"
proof (induction s)
  case Nil then show ?case by simp
next
  case (Cons x s)
  then show ?case using split_nonempty [of sep s] by (auto split: list.splits)
qed

lemma unpack2_cases:
  "unpack2 parts =
     (if length parts = 2 then Inr (parts ! 0, parts ! 1)
      else if length parts < 2 then Inl (ValueError ''not enough values to unpack (expected 2)'')
      else Inl (ValueError ''too many values to unpack (expected 2)''))"
proof (cases parts)
  case Nil then show ?thesis by (simp add: unpack2_def)
next
  case (Cons a r1)
  show ?thesis
  proof (cases r1)
    case Nil with Cons show ?thesis by (simp add: unpack2_def)
  next
    case (Cons b r2)
    with \<open>parts = a # r1\<close> show ?thesis by (cases r2) (simp_all add: unpack2_def)
  qed
qed

lemma unpack2_split:
  "unpack2 (split CHR ''_'' cname) =
     (if count_list cname CHR ''_'' = 1
      then Inr (split CHR ''_'' cname ! 0, split CHR ''_'' cname ! 1)
      else if count_list cname CHR ''_'' = 0
        then Inl (ValueError ''not enough values to unpack (expected 2)'')
      else Inl (ValueError ''too many values to unpack (expected 2)''))"
  unfolding unpack2_cases length_split by auto

lemma summary_rows_bad_name:
  "\<exists>p\<in>set imarr. count_list (fst p) CHR ''_'' \<noteq> 1 \<Longrightarrow>
     \<exists>e. summary_rows vmin vmax page imarr = Inl e"
proof (induction imarr arbitrary: page)
  case Nil then show ?case by simp
next
  case (Cons p imarr)
  obtain cname vals where p: "p = (cname, vals)" by (cases p)
  show ?case
  proof (cases "count_list cname CHR ''_'' = 1")
    case False
    then show ?thesis unfolding p by (simp add: unpack2_split)
  next
    case True
    with Cons.prems p have "\<exists>p\<in>set imarr. count_list (fst p) CHR ''_'' \<noteq> 1" by auto
    from Cons.IH [OF this, of "Suc page"] obtain e where
      "summary_rows vmin vmax (Suc page) imarr = Inl e" ..
    then show ?thesis unfolding p
      by (simp add: unpack2_split True split: sum.splits)
  qed
qed

lemma summary_rows_good_names:
  "\<forall>p\<in>set imarr. count_list (fst p) CHR ''_'' = 1
        \<and> (\<exists>lo hi. vmin (snd p) = Inr lo \<and> vmax (snd p) = Inr hi) \<Longrightarrow>
     \<exists>rows. summary_rows vmin vmax page imarr = Inr rows \<and> length rows = length imarr"
proof (induction imarr arbitrary: page)
  case Nil then show ?case by simp
next
  case (Cons p imarr)
  obtain cname vals where p: "p = (cname, vals)" by (cases p)
  from Cons.prems p obtain lo hi where one: "count_list cname CHR ''_'' = 1"
    and lo: "vmin vals = Inr lo" and hi: "vmax vals = Inr hi" by auto
  from Cons.prems have "\<forall>p\<in>set imarr. count_list (fst p) CHR ''_'' = 1
        \<and> (\<exists>lo hi. vmin (snd p) = Inr lo \<and> vmax (snd p) = Inr hi)" by simp
  from Cons.IH [OF this, of "Suc page"] obtain rows where
    "summary_rows vmin vmax (Suc page) imarr = Inr rows" "length rows = length imarr" by blast
  then show ?case unfolding p by (simp add: unpack2_split one lo hi)
qed

text \<open>
  Claim C10: with \<^verbatim>\<open>summary=True\<close>, a channel whose display name does not contain
  exactly one underscore makes \<^verbatim>\<open>write_ometiff\<close> raise, and no table of rows is
  produced. When the first such channel is the first channel, the error is the
  \<^verbatim>\<open>ValueError\<close> of the assignment to two names: not enough values for a name with
  no underscore (a channel with no label), too many for a name with several. When every
  name has one underscore and the minimum and maximum of each page exist, there is one
  row for each channel.
\<close>

theorem summary_needs_one_underscore:
  "((\<exists>p\<in>set imarr. count_list (fst p) CHR ''_'' \<noteq> 1) \<longrightarrow>
       (\<exists>e. write_ometiff vmin vmax imarr True = Inl e))
   \<and> (count_list cname CHR ''_'' = 0 \<longrightarrow>
       write_ometiff vmin vmax ((cname, page_values) # imarr) True
         = Inl (ValueError ''not enough values to unpack (expected 2)''))
   \<and> (1 < count_list cname CHR ''_'' \<longrightarrow>
       write_ometiff vmin vmax ((cname, page_values) # imarr) True
         = Inl (ValueError ''too many values to unpack (expected 2)''))
   \<and> ((\<forall>p\<in>set imarr. count_list (fst p) CHR ''_'' = 1
           \<and> (\<exists>lo hi. vmin (snd p) = Inr lo \<and> vmax (snd p) = Inr hi)) \<longrightarrow>
       (\<exists>rows. write_ometiff vmin vmax imarr True = Inr (Some rows)
           \<and> length rows = length imarr))"
proof (intro conjI impI)
  assume "\<exists>p\<in>set imarr. count_list (fst p) CHR ''_'' \<noteq> 1"
  from summary_rows_bad_name [OF this, of vmin vmax 0]
  show "\<exists>e. write_ometiff vmin vmax imarr True = Inl e"
    by (auto simp: write_ometiff_def)
next
  assume "count_list cname CHR ''_'' = 0"
  then show "write_ometiff vmin vmax ((cname, page_values) # imarr) True
         = Inl (ValueError ''not enough values to unpack (expected 2)'')"
    by (simp add: write_ometiff_def unpack2_split)
next
  assume "1 < count_list cname CHR ''_''"
  then show "write_ometiff vmin vmax ((cname, page_values) # imarr) True
         = Inl (ValueError ''too many values to unpack (expected 2)'')"
    by (simp add: write_ometiff_def unpack2_split)
next
  assume "\<forall>p\<in>set imarr. count_list (fst p) CHR ''_'' = 1
           \<and> (\<exists>lo hi. vmin (snd p) = Inr lo \<and> vmax (snd p) = Inr hi)"
  from summary_rows_good_names [OF this, of 0]
  show "\<exists>rows. write_ometiff vmin vmax imarr True = Inr (Some rows) \<and> length rows = length imarr"
    by (auto simp: write_ometiff_def)
qed

theorem summary_needs_one_underscore_witness:
  "(\<exists>e. write_ometiff (\<lambda>v. Inr (v :: int)) (\<lambda>v. Inr v) [(''Ir191_DNA'', 1), (''Ar80'', 2)] True = Inl e)
   \<and> write_ometiff (\<lambda>v. Inr (v :: int)) (\<lambda>v. Inr v) [(''Ar80'', 2), (''Ir191_DNA'', 1)] True
        = Inl (ValueError ''not enough values to unpack (expected 2)'')
   \<and> write_ometiff (\<lambda>v. Inr (v :: int)) (\<lambda>v. Inr v) [(''Ir_191_DNA'', 2), (''Ir191_DNA'', 1)] True
        = Inl (ValueError ''too many values to unpack (expected 2)'')
   \<and> (\<exists>rows. write_ometiff (\<lambda>v. Inr (v :: int)) (\<lambda>v. Inr v) [(''Ir191_DNA'', 1), (''Ar80_Ar'', 2)] True
              = Inr (Some rows) \<and> length rows = 2)"
proof (intro conjI)
  show "\<exists>e. write_ometiff (\<lambda>v. Inr (v :: int)) (\<lambda>v. Inr v) [(''Ir191_DNA'', 1), (''Ar80'', 2)] True = Inl e"
    using summary_needs_one_underscore [of "[(''Ir191_DNA'', 1), (''Ar80'', 2)]" "\<lambda>v. Inr (v :: int)" "\<lambda>v. Inr v" "''a_b''" 0]
    by simp
  show "write_ometiff (\<lambda>v. Inr (v :: int)) (\<lambda>v. Inr v) [(''Ar80'', 2), (''Ir191_DNA'', 1)] True
        = Inl (ValueError ''not enough values to unpack (expected 2)'')"
    using summary_needs_one_underscore [of "[(''Ir191_DNA'', 1)]" "\<lambda>v. Inr (v :: int)" "\<lambda>v. Inr v" "''Ar80''" 2]
    by simp
  show "write_ometiff (\<lambda>v. Inr (v :: int)) (\<lambda>v. Inr v) [(''Ir_191_DNA'', 2), (''Ir191_DNA'', 1)] True
        = Inl (ValueError ''too many values to unpack (expected 2)'')"
    using summary_needs_one_underscore [of "[(''Ir191_DNA'', 1)]" "\<lambda>v. Inr (v :: int)" "\<lambda>v. Inr v" "''Ir_191_DNA''" 2]
    by simp
  show "\<exists>rows. write_ometiff (\<lambda>v. Inr (v :: int)) (\<lambda>v. Inr v) [(''Ir191_DNA'', 1), (''Ar80_Ar'', 2)] True
              = Inr (Some rows) \<and> length rows = 2"
    using summary_needs_one_underscore [of "[(''Ir191_DNA'', 1), (''Ar80_Ar'', 2)]" "\<lambda>v. Inr (v :: int)" "\<lambda>v. Inr v" "''a_b''" 0]
    by (simp add: numeral_2_eq_2)
qed

section \<open>The round trip through the raw layout\<close>





















end
